theory Spec2Isabelle
  imports Complex_Main
begin

section \<open>Weather OPS: a shallow embedding of \<open>src/app.py\<close>\<close>

text \<open>
  The program is one Streamlit script. It asks three cached fetchers for the current
  report (METAR), the forecast (TAF) and the station record of an ICAO code, reads
  visibility and ceiling out of a second, inline request for the METAR, grades them with
  \<open>get_flight_rules\<close> and renders the result.

  Conventions of the model.
  \<^item> A number the program computes with is a \<open>number\<close>: a finite value (the real number a
    Python \<open>int\<close> or finite \<open>float\<close> denotes), one of the two infinities, or NaN. Comparing
    a float with an integer literal is exact in Python, so the thresholds compare as they
    do in the code.
  \<^item> A number in a parsed JSON payload is a \<open>jnumber\<close>: a Python \<open>int\<close> of any size, or a
    \<open>float\<close>. A JSON literal beyond the double range (\<open>1e400\<close>) parses to an infinite float;
    \<open>NaN\<close> and \<open>Infinity\<close>, which Python's parser accepts, parse to NaN and to an infinity.
    A finite float is any real here, a superset of the doubles.
  \<^item> Python's \<open>None\<close> is \<open>None\<close> of an option type.
  \<^item> An exception is a value \<open>Inl e\<close> of a sum type; \<open>Inr x\<close> is a normal return.
  \<^item> The network is an input: every fetcher takes the outcome of its \<open>requests.get\<close>
    call where the source takes the ICAO code and performs the call.
  \<^item> Rendering is a list of the Streamlit calls made, in order, each with the values it
    was given (the HTML around them and the emoji of the titles are left out).
\<close>

subsection \<open>Exceptions and Python primitives\<close>

datatype exn =
  AttributeError | TypeError | ValueError | OverflowError | JSONDecodeError | ConnectionError

type_synonym 'a result = "exn + 'a"

definition bind :: "'a result \<Rightarrow> ('a \<Rightarrow> 'b result) \<Rightarrow> 'b result" where
  "bind m f = (case m of Inl e \<Rightarrow> Inl e | Inr x \<Rightarrow> f x)"

datatype number = Fin real | PosInf | NegInf | NaN

text \<open>
  \<open>x >= k\<close> for a number \<open>x\<close> and an integer literal \<open>k\<close>: an infinity compares as its
  sign says and every comparison with NaN is false.
\<close>

fun num_ge :: "number \<Rightarrow> real \<Rightarrow> bool" where
  "num_ge (Fin r) k = (k \<le> r)"
| "num_ge PosInf k = True"
| "num_ge NegInf k = False"
| "num_ge NaN k = False"

text \<open>\<open>x >= k\<close> where \<open>x\<close> may be \<open>None\<close>: \<open>None >= k\<close> raises \<open>TypeError\<close>.\<close>

definition py_ge :: "number option \<Rightarrow> real \<Rightarrow> bool result" where
  "py_ge x k = (case x of None \<Rightarrow> Inl TypeError | Some n \<Rightarrow> Inr (num_ge n k))"

text \<open>\<open>a and b\<close>: \<open>b\<close> is evaluated (and can raise) only when \<open>a\<close> is true.\<close>

definition py_and :: "bool result \<Rightarrow> bool result \<Rightarrow> bool result" where
  "py_and a b = (case a of Inl e \<Rightarrow> Inl e | Inr p \<Rightarrow> (if p then b else Inr False))"

text \<open>\<open>if cond: a else: b\<close> where evaluating \<open>cond\<close> can raise.\<close>

definition py_if :: "bool result \<Rightarrow> 'a result \<Rightarrow> 'a result \<Rightarrow> 'a result" where
  "py_if cond a b = (case cond of Inl e \<Rightarrow> Inl e | Inr p \<Rightarrow> (if p then a else b))"

datatype jnumber = JInt int | JFloat number

text \<open>
  Truth value of a payload number or \<open>None\<close>: \<open>None\<close>, \<open>0\<close> and \<open>0.0\<close> are false; an infinity
  and NaN are true.
\<close>

fun truthy :: "jnumber option \<Rightarrow> bool" where
  "truthy None = False"
| "truthy (Some (JInt i)) = (i \<noteq> 0)"
| "truthy (Some (JFloat (Fin r))) = (r \<noteq> 0)"
| "truthy (Some (JFloat _)) = True"

text \<open>Truth value of a string-or-\<open>None\<close>: \<open>None\<close> and the empty string are false.\<close>

definition truthy_str :: "string option \<Rightarrow> bool" where
  "truthy_str x = (case x of None \<Rightarrow> False | Some s \<Rightarrow> s \<noteq> [])"

text \<open>The value of a Python \<open>int\<close> as a number.\<close>

definition num_of_int :: "int \<Rightarrow> number" where
  "num_of_int i = Fin (of_int i)"

text \<open>
  \<open>int(x)\<close> on a payload number: an \<open>int\<close> is kept, a finite float is truncated toward
  zero, an infinity raises \<open>OverflowError\<close> and NaN raises \<open>ValueError\<close>.
\<close>

fun py_int :: "jnumber \<Rightarrow> int result" where
  "py_int (JInt i) = Inr i"
| "py_int (JFloat (Fin r)) = Inr (if 0 \<le> r then \<lfloor>r\<rfloor> else \<lceil>r\<rceil>)"
| "py_int (JFloat PosInf) = Inl OverflowError"
| "py_int (JFloat NegInf) = Inl OverflowError"
| "py_int (JFloat NaN) = Inl ValueError"

text \<open>The number of binary digits of a natural number.\<close>

fun bit_length :: "nat \<Rightarrow> nat" where
  "bit_length n = (if n = 0 then 0 else Suc (bit_length (n div 2)))"

declare bit_length.simps [simp del]

text \<open>
  The double nearest to a natural number: its 53 leading binary digits, rounded to nearest
  with ties to even. Up to 53 digits nothing is lost.
\<close>

definition round_to_double :: "nat \<Rightarrow> nat" where
  "round_to_double a =
     (let n = bit_length a in
      if n \<le> 53 then a
      else
        let e = n - 53; q = a div 2 ^ e; r = a mod 2 ^ e; h = 2 ^ (e - 1) in
        (if h < r \<or> (r = h \<and> odd q) then q + 1 else q) * 2 ^ e)"

text \<open>
  \<open>float(i)\<close> on an \<open>int\<close>: the nearest double, and \<open>OverflowError\<close> when that is beyond the
  double range.
\<close>

definition float_of_int :: "int \<Rightarrow> number result" where
  "float_of_int i =
     (let m = round_to_double (nat \<bar>i\<bar>) in
      if 2 ^ 1024 \<le> m then Inl OverflowError
      else Inr (Fin (if i < 0 then - real m else real m)))"

text \<open>\<open>float(x)\<close> on a payload number: a float is kept, an \<open>int\<close> is converted.\<close>

fun py_float :: "jnumber \<Rightarrow> number result" where
  "py_float (JInt i) = float_of_int i"
| "py_float (JFloat x) = Inr x"

text \<open>
  \<open>str.upper()\<close>, on the ASCII letters. A character beyond ASCII is left as it is; none of
  them upper-cases to text containing \<open>CAVOK\<close>, the only thing the program looks for.
\<close>

definition upper_char :: "char \<Rightarrow> char" where
  "upper_char c =
     (case map_of (zip ''abcdefghijklmnopqrstuvwxyz'' ''ABCDEFGHIJKLMNOPQRSTUVWXYZ'') c of
        Some u \<Rightarrow> u
      | None \<Rightarrow> c)"

definition upper :: "string \<Rightarrow> string" where
  "upper s = map upper_char s"

fun startswith :: "string \<Rightarrow> string \<Rightarrow> bool" where
  "startswith s [] = True"
| "startswith [] (p # ps) = False"
| "startswith (c # cs) (p # ps) = (c = p \<and> startswith cs ps)"

text \<open>\<open>sub in s\<close> on strings: \<open>sub\<close> occurs in \<open>s\<close> as a contiguous run.\<close>

fun py_in :: "string \<Rightarrow> string \<Rightarrow> bool" where
  "py_in sub [] = (sub = [])"
| "py_in sub (c # cs) = (startswith (c # cs) sub \<or> py_in sub cs)"

subsection \<open>The classifier (lines 57-68)\<close>

text \<open>The five grades the classifier returns, under the names the specification gives them.\<close>

definition INSUFFICIENT_DATA :: string where "INSUFFICIENT_DATA = ''Insufficient data''"
definition VFR :: string where "VFR = ''VFR (Visual Flight Rules)''"
definition MVFR :: string where "MVFR = ''MVFR (Marginal VFR)''"
definition IFR :: string where "IFR = ''IFR (Instrument Flight Rules)''"
definition LIFR :: string where "LIFR = ''LIFR (Low IFR)''"

definition get_flight_rules :: "number option \<Rightarrow> number option \<Rightarrow> string result" where
  "get_flight_rules visibility_m ceiling_ft =
     (if visibility_m = None \<or> ceiling_ft = None then Inr INSUFFICIENT_DATA
      else py_if (py_and (py_ge visibility_m 5000) (py_ge ceiling_ft 1500))
             (Inr VFR)
          (py_if (py_and (py_ge visibility_m 3000) (py_ge ceiling_ft 1000))
             (Inr MVFR)
          (py_if (py_and (py_ge visibility_m 1600) (py_ge ceiling_ft 500))
             (Inr IFR)
             (Inr LIFR))))"

subsection \<open>Provider payloads\<close>

text \<open>
  A key of a JSON object is missing, holds \<open>null\<close>, or holds a value. \<open>d.get(k)\<close> gives
  \<open>None\<close> in the first two cases; \<open>d.get(k, default)\<close> gives the default only when the key
  is missing and \<open>None\<close> when it holds \<open>null\<close>.
\<close>

datatype 'a field = Missing | Null | Val 'a

definition get :: "'a field \<Rightarrow> 'a option" where
  "get f = (case f of Missing \<Rightarrow> None | Null \<Rightarrow> None | Val x \<Rightarrow> Some x)"

definition get_default :: "'a field \<Rightarrow> 'a \<Rightarrow> 'a option" where
  "get_default f d = (case f of Missing \<Rightarrow> Some d | Null \<Rightarrow> None | Val x \<Rightarrow> Some x)"

text \<open>
  The keys the program reads, with the JSON types the program converts them from: text for
  \<open>raw\<close>, \<open>sanitized\<close> and \<open>name\<close>, numbers for the others.
\<close>

record report_json =
  raw :: "string field"
  sanitized :: "string field"

record visibility_json =
  meters_float :: "jnumber field"

record cloud_json =
  base_feet_agl :: "jnumber field"

record metar_json = report_json +
  visibility :: "visibility_json field"
  clouds :: "cloud_json list field"

record station_json =
  name :: "string field"
  latitude :: "jnumber field"
  longitude :: "jnumber field"

text \<open>
  What \<open>requests.get\<close> returned: a status code and the body as \<open>r.json()\<close> parses it
  (\<open>None\<close> when the body is not a JSON object, where \<open>r.json()\<close> or the first \<open>.get\<close> on
  its result raises). The call itself can raise, so a fetch outcome is a \<open>response result\<close>.
\<close>

datatype 'a response = Response (status_code: int) (json: "'a option")

definition r_json :: "'a response \<Rightarrow> 'a result" where
  "r_json r = (case json r of None \<Rightarrow> Inl JSONDecodeError | Some data \<Rightarrow> Inr data)"

subsection \<open>The fetchers (lines 30-55)\<close>

definition get_metar :: "metar_json response result \<Rightarrow> (string option \<times> string option) result" where
  "get_metar req =
     bind req (\<lambda>r.
       if status_code r = 200
       then bind (r_json r) (\<lambda>data. Inr (get_default (raw data) [], get_default (sanitized data) []))
       else Inr (None, None))"

definition get_taf :: "report_json response result \<Rightarrow> (string option \<times> string option) result" where
  "get_taf req =
     bind req (\<lambda>r.
       if status_code r = 200
       then bind (r_json r) (\<lambda>data. Inr (get_default (raw data) [], get_default (sanitized data) []))
       else Inr (None, None))"

definition get_station_name ::
  "station_json response result \<Rightarrow> (string option \<times> jnumber option \<times> jnumber option) result" where
  "get_station_name req =
     bind req (\<lambda>r.
       if status_code r = 200
       then bind (r_json r) (\<lambda>data.
         Inr (get_default (name data) ''Unknown name'', get (latitude data), get (longitude data)))
       else Inr (Some ''Unknown name'', None, None))"

subsection \<open>Reading visibility and ceiling (lines 102-115)\<close>

text \<open>\<open>data.get("visibility", {}).get("meters_float")\<close>: \<open>.get\<close> on \<open>None\<close> raises.\<close>

definition read_vis_raw :: "metar_json \<Rightarrow> jnumber option result" where
  "read_vis_raw data =
     (case visibility data of
        Missing \<Rightarrow> Inr None
      | Null \<Rightarrow> Inl AttributeError
      | Val v \<Rightarrow> Inr (get (meters_float v)))"

text \<open>
  \<open>float(vis_raw) if vis_raw else None\<close> (line 106): the conversion is made, and can raise,
  only when \<open>vis_raw\<close> is true.
\<close>

definition convert_vis :: "jnumber option \<Rightarrow> number option result" where
  "convert_vis vis_raw =
     (case vis_raw of
        None \<Rightarrow> Inr None
      | Some x \<Rightarrow> if truthy (Some x) then bind (py_float x) (\<lambda>f. Inr (Some f)) else Inr None)"

text \<open>\<open>data.get("clouds", [])\<close> as the loop iterates it: iterating \<open>None\<close> raises.\<close>

definition read_clouds :: "metar_json \<Rightarrow> cloud_json list result" where
  "read_clouds data =
     (case clouds data of
        Missing \<Rightarrow> Inr []
      | Null \<Rightarrow> Inl TypeError
      | Val cs \<Rightarrow> Inr cs)"

text \<open>
  The loop over the cloud layers (lines 108-111): the first layer whose \<open>base_feet_agl\<close> is
  true (present and not zero) sets the ceiling to \<open>int\<close> of it, which can raise, and ends
  the loop.
\<close>

fun scan_clouds :: "cloud_json list \<Rightarrow> number option result" where
  "scan_clouds [] = Inr None"
| "scan_clouds (cloud # rest) =
     (case get (base_feet_agl cloud) of
        None \<Rightarrow> scan_clouds rest
      | Some b \<Rightarrow>
          if truthy (Some b) then bind (py_int b) (\<lambda>i. Inr (Some (num_of_int i)))
          else scan_clouds rest)"

text \<open>Lines 105-111, the two reads in the order the code makes them.\<close>

definition read_fields :: "metar_json \<Rightarrow> (number option \<times> number option) result" where
  "read_fields data =
     bind (read_vis_raw data) (\<lambda>vis_raw.
     bind (convert_vis vis_raw) (\<lambda>vis.
     bind (read_clouds data) (\<lambda>cs.
     bind (scan_clouds cs) (\<lambda>ceil.
     Inr (vis, ceil)))))"

text \<open>\<open>"CAVOK" in metar_raw.upper()\<close>: \<open>.upper\<close> on \<open>None\<close> raises.\<close>

definition has_cavok :: "string option \<Rightarrow> bool result" where
  "has_cavok metar_raw =
     (case metar_raw of None \<Rightarrow> Inl AttributeError | Some s \<Rightarrow> Inr (py_in ''CAVOK'' (upper s)))"

text \<open>
  Lines 102-115 as one function (the source has them inline in the METAR expander): the
  inline request, the two reads, the CAVOK override. Its result is the pair
  \<open>(vis, ceiling)\<close> that line 119 passes to the classifier.
\<close>

definition extract_fields ::
  "string option \<Rightarrow> metar_json response result \<Rightarrow> (number option \<times> number option) result" where
  "extract_fields metar_raw req =
     bind req (\<lambda>r.
     bind (r_json r) (\<lambda>data.
     bind (read_fields data) (\<lambda>(vis, ceil).
     bind (has_cavok metar_raw) (\<lambda>cavok.
     if cavok then Inr (Some (num_of_int 10000), Some (num_of_int 5000)) else Inr (vis, ceil)))))"

subsection \<open>The page (lines 88-157)\<close>

datatype event =
    StSubheader "string option" string
  | StMap "jnumber option" "jnumber option"
  | StExpander string "event list"
  | StVisibilityLine "number option" "number option"
  | StFlightConditions string string
  | StInfo string
  | StCode "string option"
  | StCaption "string option"
  | StWarning string
  | StLegend
  | StDivider
  | StError exn

definition color_of :: "string \<Rightarrow> string" where
  "color_of rules =
     (if py_in ''VFR'' rules then ''green''
      else if py_in ''MVFR'' rules then ''orange''
      else if py_in ''IFR'' rules then ''red''
      else ''#8B0000'')"

text \<open>
  The inner \<open>try\<close> of the METAR expander (lines 101-127). The visibility line is rendered
  before the classifier is called, so it stays if the classifier raises.
\<close>

definition metar_analysis :: "string option \<Rightarrow> metar_json response result \<Rightarrow> event list" where
  "metar_analysis metar_raw req =
     (case extract_fields metar_raw req of
        Inl e \<Rightarrow> [StInfo ''Unable to analyze VFR/IFR conditions.'']
      | Inr (vis, ceil) \<Rightarrow>
          StVisibilityLine vis ceil #
          (case get_flight_rules vis ceil of
             Inl e \<Rightarrow> [StInfo ''Unable to analyze VFR/IFR conditions.'']
           | Inr rules \<Rightarrow> [StFlightConditions (color_of rules) rules]))"

definition metar_expander ::
  "string option \<Rightarrow> string option \<Rightarrow> metar_json response result \<Rightarrow> event list" where
  "metar_expander metar_raw metar_text req =
     metar_analysis metar_raw req @
     (if truthy_str metar_raw then [StCode metar_raw, StCaption metar_text]
      else [StWarning ''METAR data unavailable.''])"

definition taf_expander :: "string option \<Rightarrow> string option \<Rightarrow> event list" where
  "taf_expander taf_raw taf_text =
     (if truthy_str taf_raw then [StCode taf_raw, StCaption taf_text]
      else [StWarning ''TAF data unavailable.''])"

definition station_header ::
  "string \<Rightarrow> string option \<times> jnumber option \<times> jnumber option \<Rightarrow> event list" where
  "station_header icao st =
     (case st of (station_name, lat, lon) \<Rightarrow>
        StSubheader station_name icao #
        (if truthy lat \<and> truthy lon then [StMap lat lon] else []))"

text \<open>The four requests of one query: three by the fetchers, one inline at line 103.\<close>

record network =
  metar_request :: "metar_json response result"
  taf_request :: "report_json response result"
  station_request :: "station_json response result"
  inline_metar_request :: "metar_json response result"

text \<open>
  The outer \<open>try\<close> (lines 89-155). Only the three fetcher calls can raise into it, and they
  run before anything is rendered, so an exception leaves the error message alone.
\<close>

definition page :: "string \<Rightarrow> network \<Rightarrow> event list" where
  "page icao_input net =
     (case get_metar (metar_request net) of
        Inl e \<Rightarrow> [StError e]
      | Inr (metar_raw, metar_text) \<Rightarrow>
     (case get_taf (taf_request net) of
        Inl e \<Rightarrow> [StError e]
      | Inr (taf_raw, taf_text) \<Rightarrow>
     (case get_station_name (station_request net) of
        Inl e \<Rightarrow> [StError e]
      | Inr st \<Rightarrow>
          station_header icao_input st @
          [StExpander ''METAR (Current observation)''
             (metar_expander metar_raw metar_text (inline_metar_request net)),
           StExpander ''TAF (Aeronautical forecast)'' (taf_expander taf_raw taf_text),
           StLegend, StDivider])))"

text \<open>
  Lines 84-88 and 156-157: the form upper-cases the code and gates the query. The title,
  the introduction and the footer, rendered on every run, are not part of the model.
\<close>

definition app :: "bool \<Rightarrow> string \<Rightarrow> network \<Rightarrow> event list" where
  "app submit text_input net =
     (let icao_input = upper text_input in
      if submit \<and> icao_input \<noteq> [] then page icao_input net
      else [StInfo ''Enter a valid ICAO code to display weather data.''])"

subsection \<open>Reading a rendered page\<close>











subsection \<open>Notions used to state the ceiling properties\<close>

text \<open>The layer at which the loop of lines 108-111 stops, if it stops at one.\<close>

definition chosen_layer :: "cloud_json list \<Rightarrow> cloud_json option" where
  "chosen_layer cs = find (\<lambda>cloud. truthy (get (base_feet_agl cloud))) cs"

text \<open>The base altitudes of the layers that report one, in the reported order.\<close>

definition defined_bases :: "cloud_json list \<Rightarrow> jnumber list" where
  "defined_bases cs = List.map_filter (\<lambda>cloud. get (base_feet_agl cloud)) cs"

text \<open>The value of a payload number, and Python's \<open>x < y\<close> on numbers.\<close>

fun value_of :: "jnumber \<Rightarrow> number" where
  "value_of (JInt i) = num_of_int i"
| "value_of (JFloat x) = x"

fun num_lt :: "number \<Rightarrow> number \<Rightarrow> bool" where
  "num_lt (Fin a) (Fin b) = (a < b)"
| "num_lt (Fin a) PosInf = True"
| "num_lt NegInf (Fin b) = True"
| "num_lt NegInf PosInf = True"
| "num_lt _ _ = False"

text \<open>Python's \<open>min\<close> of two payload numbers: the second only when it is lower.\<close>

definition lower :: "jnumber \<Rightarrow> jnumber \<Rightarrow> jnumber" where
  "lower x y = (if num_lt (value_of y) (value_of x) then y else x)"

text \<open>
  The ceiling in the specification's words: the lowest cloud-base altitude among the
  reported layers that have a defined base, or none if no layer has one.
\<close>

definition lowest_defined_base :: "cloud_json list \<Rightarrow> jnumber option" where
  "lowest_defined_base cs =
     (case defined_bases cs of [] \<Rightarrow> None | b # bs \<Rightarrow> Some (fold (\<lambda>y x. lower x y) bs b))"

text \<open>The base of the first layer, in the reported order, that has a defined base.\<close>

definition first_defined_base :: "cloud_json list \<Rightarrow> jnumber option" where
  "first_defined_base cs = (case defined_bases cs of [] \<Rightarrow> None | b # bs \<Rightarrow> Some b)"

text \<open>The layers are reported bottom-up: no layer's defined base is lower than an earlier one.\<close>

definition bottom_up :: "cloud_json list \<Rightarrow> bool" where
  "bottom_up cs = sorted_wrt (\<lambda>x y. \<not> num_lt (value_of y) (value_of x)) (defined_bases cs)"

subsection \<open>Example payloads and queries\<close>












section \<open>The classifier\<close>

lemmas grade_defs = INSUFFICIENT_DATA_def VFR_def MVFR_def IFR_def LIFR_def

lemma grades_neq:
  "INSUFFICIENT_DATA \<noteq> VFR"
  "INSUFFICIENT_DATA \<noteq> MVFR"
  "INSUFFICIENT_DATA \<noteq> IFR"
  "INSUFFICIENT_DATA \<noteq> LIFR"
  "VFR \<noteq> INSUFFICIENT_DATA"
  "VFR \<noteq> MVFR"
  "VFR \<noteq> IFR"
  "VFR \<noteq> LIFR"
  "MVFR \<noteq> INSUFFICIENT_DATA"
  "MVFR \<noteq> VFR"
  "MVFR \<noteq> IFR"
  "MVFR \<noteq> LIFR"
  "IFR \<noteq> INSUFFICIENT_DATA"
  "IFR \<noteq> VFR"
  "IFR \<noteq> MVFR"
  "IFR \<noteq> LIFR"
  "LIFR \<noteq> INSUFFICIENT_DATA"
  "LIFR \<noteq> VFR"
  "LIFR \<noteq> MVFR"
  "LIFR \<noteq> IFR"
  by (simp_all add: grade_defs)

lemma grades_distinct: "distinct [VFR, MVFR, IFR, LIFR]"
  by (simp add: grades_neq)

lemma gfr_table:
  "get_flight_rules (Some x) (Some y) =
     Inr (if num_ge x 5000 \<and> num_ge y 1500 then VFR
          else if num_ge x 3000 \<and> num_ge y 1000 then MVFR
          else if num_ge x 1600 \<and> num_ge y 500 then IFR
          else LIFR)"
  by (simp add: get_flight_rules_def py_if_def py_and_def py_ge_def)

lemma gfr_present:
  "get_flight_rules (Some (Fin v)) (Some (Fin c)) =
     Inr (if 5000 \<le> v \<and> 1500 \<le> c then VFR
          else if 3000 \<le> v \<and> 1000 \<le> c then MVFR
          else if 1600 \<le> v \<and> 500 \<le> c then IFR
          else LIFR)"
  by (simp add: gfr_table)

lemma gfr_absent:
  "get_flight_rules v None = Inr INSUFFICIENT_DATA"
  "get_flight_rules None c = Inr INSUFFICIENT_DATA"
  by (simp_all add: get_flight_rules_def)

lemma gfr_one_of_four:
  "\<exists>!g. g \<in> set [VFR, MVFR, IFR, LIFR] \<and> get_flight_rules (Some x) (Some y) = Inr g"
proof (rule ex_ex1I)
  show "\<exists>g. g \<in> set [VFR, MVFR, IFR, LIFR] \<and> get_flight_rules (Some x) (Some y) = Inr g"
    by (simp add: gfr_table)
next
  fix g h
  assume "g \<in> set [VFR, MVFR, IFR, LIFR] \<and> get_flight_rules (Some x) (Some y) = Inr g"
    and "h \<in> set [VFR, MVFR, IFR, LIFR] \<and> get_flight_rules (Some x) (Some y) = Inr h"
  then have "(Inr g :: string result) = Inr h" by simp
  then show "g = h" by (simp only: sum.inject)
qed

text \<open>
  C1. With both values present the classifier is the rule table read top to bottom, the
  first row that matches deciding, every threshold an inclusive lower bound: VFR from
  5000 m and 1500 ft, else MVFR from 3000 m and 1000 ft, else IFR from 1600 m and 500 ft,
  else LIFR. This holds for every pair of finite values, and for an infinity or NaN with
  the comparisons read as Python makes them. The four scenarios of the specification come
  out as it says.
\<close>

theorem get_flight_rules_rule_table:
  "get_flight_rules (Some (Fin v)) (Some (Fin c)) =
     Inr (if 5000 \<le> v \<and> 1500 \<le> c then VFR
          else if 3000 \<le> v \<and> 1000 \<le> c then MVFR
          else if 1600 \<le> v \<and> 500 \<le> c then IFR
          else LIFR)
   \<and> get_flight_rules (Some x) (Some y) =
     Inr (if num_ge x 5000 \<and> num_ge y 1500 then VFR
          else if num_ge x 3000 \<and> num_ge y 1000 then MVFR
          else if num_ge x 1600 \<and> num_ge y 500 then IFR
          else LIFR)
   \<and> get_flight_rules (Some (Fin 6000)) (Some (Fin 2000)) = Inr VFR
   \<and> get_flight_rules (Some (Fin 3500)) (Some (Fin 1000)) = Inr MVFR
   \<and> get_flight_rules (Some (Fin 1700)) (Some (Fin 600)) = Inr IFR
   \<and> get_flight_rules (Some (Fin 800)) (Some (Fin 200)) = Inr LIFR"
  by (simp add: gfr_table)

text \<open>
  C3. An absent ceiling, or an absent visibility, gives "Insufficient data" whatever the
  other argument is (present or absent). The classifier returns normally: the test for
  absence comes before the comparisons, which on an absent value would raise.
\<close>

theorem get_flight_rules_absent:
  "get_flight_rules v None = Inr INSUFFICIENT_DATA
   \<and> get_flight_rules None c = Inr INSUFFICIENT_DATA
   \<and> py_ge None k = Inl TypeError"
  by (simp add: gfr_absent py_ge_def)

text \<open>
  C6, as the specification words it, puts every visibility from 3000 m to below 5000 m in
  the MVFR region whatever the ceiling. The code does not: 3500 m under a 200 ft ceiling
  is LIFR.
\<close>

theorem mvfr_region_counterexample:
  "(3000::real) \<le> 3500 \<and> (3500::real) < 5000
   \<and> get_flight_rules (Some (Fin 3500)) (Some (Fin 200)) = Inr LIFR
   \<and> get_flight_rules (Some (Fin 3500)) (Some (Fin 200)) \<noteq> Inr MVFR"
  by (simp add: gfr_present grades_neq)

text \<open>
  C6, amended. The MVFR region needs a ceiling of at least 1000 ft in its first part too:
  every pair with 3000 \<open>\<le>\<close> v < 5000 and c \<open>\<ge>\<close> 1000, or with v \<open>\<ge>\<close> 5000 and 1000 \<open>\<le>\<close> c < 1500, is
  MVFR. At the boundary, (3000, 1000) is MVFR and (2999, 1000) is IFR.
\<close>

theorem mvfr_region:
  "((3000 \<le> v \<and> v < 5000 \<and> 1000 \<le> c) \<or> (5000 \<le> v \<and> 1000 \<le> c \<and> c < 1500)
      \<longrightarrow> get_flight_rules (Some (Fin v)) (Some (Fin c)) = Inr MVFR)
   \<and> get_flight_rules (Some (Fin 3000)) (Some (Fin 1000)) = Inr MVFR
   \<and> get_flight_rules (Some (Fin 2999)) (Some (Fin 1000)) = Inr IFR"
  by (auto simp add: gfr_present)

theorem mvfr_region_witness:
  "(3000::real) \<le> 4000 \<and> (4000::real) < 5000 \<and> (1000::real) \<le> 1200
   \<and> get_flight_rules (Some (Fin 4000)) (Some (Fin 1200)) = Inr MVFR"
  using mvfr_region [of 4000 1200] by simp

text \<open>
  C9. Where visibility and ceiling are both present and not negative, the classifier
  returns exactly one of VFR, MVFR, IFR and LIFR, never "Insufficient data"; the four
  names are different, and each is returned on its own branch condition only, the
  conditions of the earlier branches failing. Exactly one of the four is returned for
  any two present numbers, an infinity or NaN among them.
\<close>

theorem numeric_branches_exclusive_exhaustive:
  assumes "0 \<le> v" and "0 \<le> c"
  shows "(\<exists>!g. g \<in> set [VFR, MVFR, IFR, LIFR]
            \<and> get_flight_rules (Some (Fin v)) (Some (Fin c)) = Inr g)
    \<and> distinct [VFR, MVFR, IFR, LIFR]
    \<and> get_flight_rules (Some (Fin v)) (Some (Fin c)) \<noteq> Inr INSUFFICIENT_DATA
    \<and> (get_flight_rules (Some (Fin v)) (Some (Fin c)) = Inr VFR \<longleftrightarrow> 5000 \<le> v \<and> 1500 \<le> c)
    \<and> (get_flight_rules (Some (Fin v)) (Some (Fin c)) = Inr MVFR \<longleftrightarrow>
         \<not> (5000 \<le> v \<and> 1500 \<le> c) \<and> 3000 \<le> v \<and> 1000 \<le> c)
    \<and> (get_flight_rules (Some (Fin v)) (Some (Fin c)) = Inr IFR \<longleftrightarrow>
         \<not> (5000 \<le> v \<and> 1500 \<le> c) \<and> \<not> (3000 \<le> v \<and> 1000 \<le> c) \<and> 1600 \<le> v \<and> 500 \<le> c)
    \<and> (get_flight_rules (Some (Fin v)) (Some (Fin c)) = Inr LIFR \<longleftrightarrow>
         \<not> (5000 \<le> v \<and> 1500 \<le> c) \<and> \<not> (3000 \<le> v \<and> 1000 \<le> c) \<and> \<not> (1600 \<le> v \<and> 500 \<le> c))
    \<and> (\<exists>!g. g \<in> set [VFR, MVFR, IFR, LIFR] \<and> get_flight_rules (Some x) (Some y) = Inr g)
    \<and> get_flight_rules (Some x) (Some y) \<noteq> Inr INSUFFICIENT_DATA"
proof -
  have one: "\<exists>!g. g \<in> set [VFR, MVFR, IFR, LIFR]
            \<and> get_flight_rules (Some (Fin v)) (Some (Fin c)) = Inr g"
    by (rule gfr_one_of_four)
  have rest: "distinct [VFR, MVFR, IFR, LIFR]"
    "get_flight_rules (Some (Fin v)) (Some (Fin c)) \<noteq> Inr INSUFFICIENT_DATA"
    "get_flight_rules (Some (Fin v)) (Some (Fin c)) = Inr VFR \<longleftrightarrow> 5000 \<le> v \<and> 1500 \<le> c"
    "get_flight_rules (Some (Fin v)) (Some (Fin c)) = Inr MVFR \<longleftrightarrow>
         \<not> (5000 \<le> v \<and> 1500 \<le> c) \<and> 3000 \<le> v \<and> 1000 \<le> c"
    "get_flight_rules (Some (Fin v)) (Some (Fin c)) = Inr IFR \<longleftrightarrow>
         \<not> (5000 \<le> v \<and> 1500 \<le> c) \<and> \<not> (3000 \<le> v \<and> 1000 \<le> c) \<and> 1600 \<le> v \<and> 500 \<le> c"
    "get_flight_rules (Some (Fin v)) (Some (Fin c)) = Inr LIFR \<longleftrightarrow>
         \<not> (5000 \<le> v \<and> 1500 \<le> c) \<and> \<not> (3000 \<le> v \<and> 1000 \<le> c) \<and> \<not> (1600 \<le> v \<and> 500 \<le> c)"
    by (simp_all add: gfr_present grades_neq)
  have gen: "\<exists>!g. g \<in> set [VFR, MVFR, IFR, LIFR] \<and> get_flight_rules (Some x) (Some y) = Inr g"
    by (rule gfr_one_of_four)
  have gen2: "get_flight_rules (Some x) (Some y) \<noteq> Inr INSUFFICIENT_DATA"
    by (simp add: gfr_table grades_neq)
  from one rest gen gen2 show ?thesis by (intro conjI)
qed

theorem numeric_branches_witness:
  "(0::real) \<le> 1700 \<and> (0::real) \<le> 600
   \<and> get_flight_rules (Some (Fin 1700)) (Some (Fin 600)) = Inr IFR
   \<and> get_flight_rules (Some (Fin 1700)) (Some (Fin 600)) \<noteq> Inr INSUFFICIENT_DATA"
proof -
  have h: "(0::real) \<le> 1700" "(0::real) \<le> 600" by simp_all
  from numeric_branches_exclusive_exhaustive [OF h]
  have "get_flight_rules (Some (Fin 1700)) (Some (Fin 600)) = Inr IFR"
    and "get_flight_rules (Some (Fin 1700)) (Some (Fin 600)) \<noteq> Inr INSUFFICIENT_DATA"
    by (simp_all add: grades_neq)
  with h show ?thesis by (intro conjI)
qed

section \<open>Conversions\<close>

lemma bit_length_less: "a < 2 ^ n \<Longrightarrow> bit_length a \<le> n"
proof (induction n arbitrary: a)
  case 0
  then show ?case by (simp add: bit_length.simps)
next
  case (Suc n)
  show ?case
  proof (cases "a = 0")
    case True
    then show ?thesis by (simp add: bit_length.simps)
  next
    case False
    from Suc.prems have "a div 2 < 2 ^ n" by simp
    then have "bit_length (a div 2) \<le> n" by (rule Suc.IH)
    with False show ?thesis by (subst bit_length.simps) simp
  qed
qed

lemma bit_length_pow2: "bit_length (2 ^ n) = Suc n"
  by (induction n) (simp_all add: bit_length.simps)

lemma bit_length_eq: "2 ^ n \<le> a \<Longrightarrow> a < 2 ^ Suc n \<Longrightarrow> bit_length a = Suc n"
proof (induction n arbitrary: a)
  case 0
  then have "a = 1" by simp
  then show ?case by (simp add: bit_length.simps)
next
  case (Suc n)
  from Suc.prems have "2 ^ n \<le> a div 2" and "a div 2 < 2 ^ Suc n" by simp_all
  then have "bit_length (a div 2) = Suc n" by (rule Suc.IH)
  moreover from Suc.prems have "a \<noteq> 0" by auto
  ultimately show ?case by (subst bit_length.simps) simp
qed

lemma round_to_double_small: "a \<le> 2 ^ 53 \<Longrightarrow> round_to_double a = a"
proof (cases "a = 2 ^ 53")
  case True
  have "bit_length ((2::nat) ^ 53) = 54" by (simp only: bit_length_pow2)
  with True show ?thesis by (simp add: round_to_double_def Let_def)
next
  case False
  assume "a \<le> 2 ^ 53"
  with False have "a < 2 ^ 53" by simp
  then have "bit_length a \<le> 53" by (rule bit_length_less)
  then show ?thesis by (simp add: round_to_double_def Let_def)
qed

lemma float_of_int_exact:
  assumes "\<bar>i\<bar> \<le> 2 ^ 53"
  shows "float_of_int i = Inr (num_of_int i)"
proof -
  have le: "nat \<bar>i\<bar> \<le> 2 ^ 53" using assms by (simp add: nat_le_iff)
  then have r: "round_to_double (nat \<bar>i\<bar>) = nat \<bar>i\<bar>" by (rule round_to_double_small)
  have "(2::nat) ^ 53 < 2 ^ 1024" by (rule power_strict_increasing) simp_all
  with le have "\<not> (2::nat) ^ 1024 \<le> nat \<bar>i\<bar>" by (simp only: not_le)
  with r show ?thesis
    by (simp only: float_of_int_def Let_def num_of_int_def if_False) auto
qed

lemma round_to_double_example: "round_to_double 9007199254740993 = 9007199254740992"
proof -
  have "bit_length 9007199254740993 = Suc 53"
    by (rule bit_length_eq) simp_all
  then show ?thesis by (simp add: round_to_double_def Let_def)
qed

lemma float_of_int_rounds: "float_of_int 9007199254740993 = Inr (Fin 9007199254740992)"
proof -
  have "(9007199254740992::nat) = 2 ^ 53" by simp
  moreover have "(2::nat) ^ 53 < 2 ^ 1024" by (rule power_strict_increasing) simp_all
  ultimately have n: "\<not> (2::nat) ^ 1024 \<le> 9007199254740992" by (simp only: not_le)
  have a: "nat \<bar>9007199254740993\<bar> = 9007199254740993" by simp
  show ?thesis
    unfolding float_of_int_def Let_def a round_to_double_example using n by simp
qed

lemma py_int_whole:
  "py_int (JInt n) = Inr n"
  "py_int (JFloat (Fin (of_int n))) = Inr n"
  by simp_all

section \<open>Reading visibility and ceiling\<close>

lemma scan_clouds_chosen:
  "scan_clouds cs =
     (case chosen_layer cs of
        None \<Rightarrow> Inr None
      | Some l \<Rightarrow>
          (case get (base_feet_agl l) of
             None \<Rightarrow> Inr None
           | Some b \<Rightarrow> bind (py_int b) (\<lambda>i. Inr (Some (num_of_int i)))))"
  by (induction cs) (auto simp add: chosen_layer_def split: option.splits)

lemma scan_clouds_first:
  "\<forall>b\<in>set (defined_bases cs). truthy (Some b) \<Longrightarrow>
   scan_clouds cs =
     (case first_defined_base cs of
        None \<Rightarrow> Inr None
      | Some b \<Rightarrow> bind (py_int b) (\<lambda>i. Inr (Some (num_of_int i))))"
proof (induction cs)
  case Nil
  then show ?case by (simp add: first_defined_base_def defined_bases_def)
next
  case (Cons cloud rest)
  show ?case
  proof (cases "get (base_feet_agl cloud)")
    case None
    with Cons show ?thesis
      by (simp add: first_defined_base_def defined_bases_def)
  next
    case (Some b)
    with Cons.prems have "truthy (Some b)"
      by (simp add: defined_bases_def)
    with Some show ?thesis
      by (simp add: first_defined_base_def defined_bases_def)
  qed
qed

lemma fold_lower_first:
  "\<forall>y\<in>set bs. \<not> num_lt (value_of y) (value_of b) \<Longrightarrow> fold (\<lambda>y x. lower x y) bs b = b"
  by (induction bs) (simp_all add: lower_def)

lemma first_is_lowest:
  "bottom_up cs \<Longrightarrow> first_defined_base cs = lowest_defined_base cs"
  by (cases "defined_bases cs")
     (simp_all add: first_defined_base_def lowest_defined_base_def bottom_up_def fold_lower_first)

lemma extract_eq:
  assumes "json r = Some data"
  shows "extract_fields metar_raw (Inr r) =
     bind (read_fields data) (\<lambda>(vis, ceil).
     bind (has_cavok metar_raw) (\<lambda>cavok.
     if cavok then Inr (Some (num_of_int 10000), Some (num_of_int 5000)) else Inr (vis, ceil)))"
  using assms by (simp add: extract_fields_def bind_def r_json_def)

lemma read_fields_missing:
  "visibility data = Missing \<Longrightarrow> clouds data = Missing \<Longrightarrow> read_fields data = Inr (None, None)"
  by (simp add: read_fields_def read_vis_raw_def convert_vis_def read_clouds_def bind_def)

lemmas extract_defs = extract_fields_def read_fields_def bind_def r_json_def read_vis_raw_def
  convert_vis_def read_clouds_def has_cavok_def get_def num_of_int_def

text \<open>
  C2, as stated, has the override hold whatever the structured fields are. The fields
  are read and converted (lines 105-111) before the raw text is searched (line 113), and
  that can raise: with a cloud base of \<open>1e400\<close>, which parses to an infinite float, \<open>int\<close>
  raises \<open>OverflowError\<close> and the block is left through its handler, although the raw text
  contains CAVOK.
\<close>

theorem cavok_override_counterexample:
  "py_in ''CAVOK'' (upper ''LFPG 121200Z 24005KT CAVOK 18/09 Q1020'')
   \<and> extract_fields (Some ''LFPG 121200Z 24005KT CAVOK 18/09 Q1020'')
       (Inr (Response 200 (Some \<lparr>raw = Val ''LFPG 121200Z 24005KT CAVOK 18/09 Q1020'',
          sanitized = Val ''LFPG 121200Z 24005KT CAVOK 18/09 Q1020'',
          visibility = Val \<lparr>meters_float = Val (JFloat (Fin 9999))\<rparr>,
          clouds = Val [\<lparr>base_feet_agl = Val (JFloat PosInf)\<rparr>]\<rparr>)))
     = Inl OverflowError"
  by (simp add: extract_defs upper_def upper_char_def)

text \<open>
  C2, amended. If the raw text contains CAVOK in any letter case and the inline request
  is answered with a JSON object, the extraction raises what reading and converting the
  structured fields raises, and when that raises nothing it gives visibility 10000 m and
  ceiling 5000 ft whatever values were read; in particular, when the visibility entry and
  the cloud list are both missing from the payload the result is exactly (10000, 5000).
\<close>

theorem cavok_override:
  assumes "py_in ''CAVOK'' (upper s)" and "json r = Some data"
  shows "extract_fields (Some s) (Inr r) =
           bind (read_fields data) (\<lambda>read. Inr (Some (Fin 10000), Some (Fin 5000)))
    \<and> (\<forall>vis ceil. read_fields data = Inr (vis, ceil) \<longrightarrow>
          extract_fields (Some s) (Inr r) = Inr (Some (Fin 10000), Some (Fin 5000)))
    \<and> (visibility data = Missing \<and> clouds data = Missing \<longrightarrow>
          extract_fields (Some s) (Inr r) = Inr (Some (Fin 10000), Some (Fin 5000)))"
proof -
  have c: "has_cavok (Some s) = Inr True"
    using assms(1) by (simp add: has_cavok_def)
  have a: "extract_fields (Some s) (Inr r) =
           bind (read_fields data) (\<lambda>read. Inr (Some (Fin 10000), Some (Fin 5000)))"
    by (simp add: extract_eq [OF assms(2)] c bind_def num_of_int_def split: sum.splits)
  have b: "\<forall>vis ceil. read_fields data = Inr (vis, ceil) \<longrightarrow>
          extract_fields (Some s) (Inr r) = Inr (Some (Fin 10000), Some (Fin 5000))"
    by (simp add: a bind_def)
  have d: "visibility data = Missing \<and> clouds data = Missing \<longrightarrow>
          extract_fields (Some s) (Inr r) = Inr (Some (Fin 10000), Some (Fin 5000))"
    by (simp add: a bind_def read_fields_missing)
  from a b d show ?thesis by (intro conjI)
qed

theorem cavok_override_witness:
  "py_in ''CAVOK'' (upper ''lfpg 121200z 24005kt cavok 18/09 q1020'')
   \<and> extract_fields (Some ''lfpg 121200z 24005kt cavok 18/09 q1020'')
       (Inr (Response 200 (Some \<lparr>raw = Val ''lfpg 121200z 24005kt cavok 18/09 q1020'',
          sanitized = Missing, visibility = Missing, clouds = Missing\<rparr>)))
     = Inr (Some (Fin 10000), Some (Fin 5000))"
proof -
  have a: "py_in ''CAVOK'' (upper ''lfpg 121200z 24005kt cavok 18/09 q1020'')"
    by (simp add: upper_def upper_char_def)
  have b: "json (Response 200 (Some \<lparr>raw = Val ''lfpg 121200z 24005kt cavok 18/09 q1020'',
          sanitized = Missing, visibility = Missing, clouds = Missing\<rparr>))
       = Some \<lparr>raw = Val ''lfpg 121200z 24005kt cavok 18/09 q1020'',
          sanitized = Missing, visibility = Missing, clouds = Missing\<rparr>"
    by simp
  from cavok_override [OF a b, THEN conjunct2, THEN conjunct2]
  have "extract_fields (Some ''lfpg 121200z 24005kt cavok 18/09 q1020'')
       (Inr (Response 200 (Some \<lparr>raw = Val ''lfpg 121200z 24005kt cavok 18/09 q1020'',
          sanitized = Missing, visibility = Missing, clouds = Missing\<rparr>)))
     = Inr (Some (Fin 10000), Some (Fin 5000))"
    by simp
  with a show ?thesis by (intro conjI)
qed

text \<open>
  C5, as stated, has the ceiling be the lowest defined base among all layers. The loop
  stops at the first layer with a base: for layers at 3000 ft and 1000 ft, in that order,
  the ceiling is 3000 ft and the lowest base is 1000 ft.
\<close>

theorem lowest_base_counterexample:
  "scan_clouds [\<lparr>base_feet_agl = Val (JInt 3000)\<rparr>, \<lparr>base_feet_agl = Val (JInt 1000)\<rparr>]
     = Inr (Some (Fin 3000))
   \<and> lowest_defined_base [\<lparr>base_feet_agl = Val (JInt 3000)\<rparr>, \<lparr>base_feet_agl = Val (JInt 1000)\<rparr>]
     = Some (JInt 1000)
   \<and> extract_fields (Some ''LFPG 121200Z 24005KT 9000 BKN030 OVC010 18/09 Q1020'')
       (Inr (Response 200 (Some \<lparr>raw = Val ''LFPG 121200Z 24005KT 9000 BKN030 OVC010 18/09 Q1020'',
          sanitized = Val ''LFPG 121200Z 24005KT 9000 BKN030 OVC010 18/09 Q1020'',
          visibility = Val \<lparr>meters_float = Val (JFloat (Fin 9000))\<rparr>,
          clouds = Val [\<lparr>base_feet_agl = Val (JInt 3000)\<rparr>, \<lparr>base_feet_agl = Val (JInt 1000)\<rparr>]\<rparr>)))
     = Inr (Some (Fin 9000), Some (Fin 3000))"
  by (simp add: extract_defs upper_def upper_char_def
      lowest_defined_base_def defined_bases_def lower_def)

text \<open>
  C5, amended. Without a CAVOK override (the raw text is present and does not contain
  CAVOK), where the inline request is answered with a JSON object, the visibility is read
  without an exception, the cloud list is missing or a list, and no layer reports a base
  of zero:
  the derived ceiling is \<open>int\<close> of the base of the first layer, in the reported order, that
  has a defined base, the extraction raising what \<open>int\<close> raises on that base (an infinite
  or NaN one); the ceiling is absent if no layer has a defined base. The first defined
  base is the lowest one whenever the layers are reported bottom-up.
\<close>

theorem ceiling_is_first_defined_base:
  assumes "has_cavok metar_raw = Inr False" and "json r = Some data"
    and "read_vis_raw data = Inr vis_raw" and "convert_vis vis_raw = Inr vis"
    and "read_clouds data = Inr cs"
    and "\<forall>b\<in>set (defined_bases cs). truthy (Some b)"
  shows "extract_fields metar_raw (Inr r) =
           (case first_defined_base cs of
              None \<Rightarrow> Inr (vis, None)
            | Some b \<Rightarrow> bind (py_int b) (\<lambda>i. Inr (vis, Some (num_of_int i))))
    \<and> (first_defined_base cs = None \<longleftrightarrow> defined_bases cs = [])
    \<and> (bottom_up cs \<longrightarrow> first_defined_base cs = lowest_defined_base cs)"
proof -
  have a: "extract_fields metar_raw (Inr r) =
           (case first_defined_base cs of
              None \<Rightarrow> Inr (vis, None)
            | Some b \<Rightarrow> bind (py_int b) (\<lambda>i. Inr (vis, Some (num_of_int i))))"
    using assms(1,3,4,5) scan_clouds_first [OF assms(6)]
    by (simp add: extract_eq [OF assms(2)] read_fields_def bind_def
        split: option.splits sum.splits)
  have b: "first_defined_base cs = None \<longleftrightarrow> defined_bases cs = []"
    by (simp add: first_defined_base_def split: list.split)
  have c: "bottom_up cs \<longrightarrow> first_defined_base cs = lowest_defined_base cs"
    using first_is_lowest by blast
  from a b c show ?thesis by (intro conjI)
qed

theorem ceiling_is_first_defined_base_witness:
  "has_cavok (Some ''LFPG 121200Z 24005KT 8000 FEW012 BKN025 18/09 Q1020'') = Inr False
   \<and> (\<forall>b\<in>set (defined_bases
        [\<lparr>base_feet_agl = Null\<rparr>, \<lparr>base_feet_agl = Val (JInt 1200)\<rparr>,
         \<lparr>base_feet_agl = Val (JInt 2500)\<rparr>]). truthy (Some b)) = True
   \<and> extract_fields (Some ''LFPG 121200Z 24005KT 8000 FEW012 BKN025 18/09 Q1020'')
        (Inr (Response 200 (Some \<lparr>raw = Missing, sanitized = Missing,
           visibility = Val \<lparr>meters_float = Val (JFloat (Fin 8000))\<rparr>,
           clouds = Val [\<lparr>base_feet_agl = Null\<rparr>, \<lparr>base_feet_agl = Val (JInt 1200)\<rparr>,
                         \<lparr>base_feet_agl = Val (JInt 2500)\<rparr>]\<rparr>)))
        = Inr (Some (Fin 8000), Some (Fin 1200))"
proof -
  have a: "has_cavok (Some ''LFPG 121200Z 24005KT 8000 FEW012 BKN025 18/09 Q1020'') = Inr False"
    by (simp add: has_cavok_def upper_def upper_char_def)
  have b: "json (Response 200 (Some \<lparr>raw = Missing, sanitized = Missing,
           visibility = Val \<lparr>meters_float = Val (JFloat (Fin 8000))\<rparr>,
           clouds = Val [\<lparr>base_feet_agl = Null\<rparr>, \<lparr>base_feet_agl = Val (JInt 1200)\<rparr>,
                         \<lparr>base_feet_agl = Val (JInt 2500)\<rparr>]\<rparr>))
       = Some \<lparr>raw = Missing, sanitized = Missing,
           visibility = Val \<lparr>meters_float = Val (JFloat (Fin 8000))\<rparr>,
           clouds = Val [\<lparr>base_feet_agl = Null\<rparr>, \<lparr>base_feet_agl = Val (JInt 1200)\<rparr>,
                         \<lparr>base_feet_agl = Val (JInt 2500)\<rparr>]\<rparr>"
    by simp
  have c: "read_vis_raw \<lparr>raw = Missing, sanitized = Missing,
           visibility = Val \<lparr>meters_float = Val (JFloat (Fin 8000))\<rparr>,
           clouds = Val [\<lparr>base_feet_agl = Null\<rparr>, \<lparr>base_feet_agl = Val (JInt 1200)\<rparr>,
                         \<lparr>base_feet_agl = Val (JInt 2500)\<rparr>]\<rparr> = Inr (Some (JFloat (Fin 8000)))"
    by (simp add: read_vis_raw_def get_def)
  have c': "convert_vis (Some (JFloat (Fin 8000))) = Inr (Some (Fin 8000))"
    by (simp add: convert_vis_def bind_def)
  have d: "read_clouds \<lparr>raw = Missing, sanitized = Missing,
           visibility = Val \<lparr>meters_float = Val (JFloat (Fin 8000))\<rparr>,
           clouds = Val [\<lparr>base_feet_agl = Null\<rparr>, \<lparr>base_feet_agl = Val (JInt 1200)\<rparr>,
                         \<lparr>base_feet_agl = Val (JInt 2500)\<rparr>]\<rparr>
       = Inr [\<lparr>base_feet_agl = Null\<rparr>, \<lparr>base_feet_agl = Val (JInt 1200)\<rparr>,
              \<lparr>base_feet_agl = Val (JInt 2500)\<rparr>]"
    by (simp add: read_clouds_def)
  have e: "\<forall>b\<in>set (defined_bases
        [\<lparr>base_feet_agl = Null\<rparr>, \<lparr>base_feet_agl = Val (JInt 1200)\<rparr>,
         \<lparr>base_feet_agl = Val (JInt 2500)\<rparr>]). truthy (Some b)"
    by (simp add: defined_bases_def get_def)
  have f: "first_defined_base
        [\<lparr>base_feet_agl = Null\<rparr>, \<lparr>base_feet_agl = Val (JInt 1200)\<rparr>,
         \<lparr>base_feet_agl = Val (JInt 2500)\<rparr>] = Some (JInt 1200)"
    by (simp add: first_defined_base_def defined_bases_def get_def)
  from ceiling_is_first_defined_base [OF a b c c' d e] f
  have g: "extract_fields (Some ''LFPG 121200Z 24005KT 8000 FEW012 BKN025 18/09 Q1020'')
        (Inr (Response 200 (Some \<lparr>raw = Missing, sanitized = Missing,
           visibility = Val \<lparr>meters_float = Val (JFloat (Fin 8000))\<rparr>,
           clouds = Val [\<lparr>base_feet_agl = Null\<rparr>, \<lparr>base_feet_agl = Val (JInt 1200)\<rparr>,
                         \<lparr>base_feet_agl = Val (JInt 2500)\<rparr>]\<rparr>)))
        = Inr (Some (Fin 8000), Some (Fin 1200))"
    by (simp add: bind_def num_of_int_def)
  from e have e': "(\<forall>b\<in>set (defined_bases
        [\<lparr>base_feet_agl = Null\<rparr>, \<lparr>base_feet_agl = Val (JInt 1200)\<rparr>,
         \<lparr>base_feet_agl = Val (JInt 2500)\<rparr>]). truthy (Some b)) = True"
    by (simp only: eq_True)
  from a e' g show ?thesis by (intro conjI)
qed

text \<open>
  C7, as stated, has a reported visibility of 0 returned as 0 and every reported value
  returned exactly, the ceiling without truncation. A visibility of 0 comes out absent; a
  base of 1500.5 ft comes out as 1500 ft; and a visibility reported as the integer
  9007199254740993 comes out as 9007199254740992, the nearest double.
\<close>

theorem pass_through_counterexample:
  "has_cavok (Some ''LFPG 121200Z 00000KT 0000 FG VV015 10/10 Q1020'') = Inr False
   \<and> extract_fields (Some ''LFPG 121200Z 00000KT 0000 FG VV015 10/10 Q1020'')
        (Inr (Response 200 (Some \<lparr>raw = Missing, sanitized = Missing,
           visibility = Val \<lparr>meters_float = Val (JFloat (Fin 0))\<rparr>,
           clouds = Val [\<lparr>base_feet_agl = Val (JFloat (Fin (3001 / 2)))\<rparr>]\<rparr>)))
      = Inr (None, Some (Fin 1500))
   \<and> (1500::real) \<noteq> 3001 / 2
   \<and> extract_fields (Some ''LFPG 121200Z 00000KT 0000 FG VV015 10/10 Q1020'')
        (Inr (Response 200 (Some \<lparr>raw = Missing, sanitized = Missing,
           visibility = Val \<lparr>meters_float = Val (JInt 9007199254740993)\<rparr>,
           clouds = Val []\<rparr>)))
      = Inr (Some (Fin 9007199254740992), None)"
  by (simp add: extract_defs upper_def upper_char_def float_of_int_rounds)

text \<open>
  C7, amended. Without a CAVOK override (the raw text is present and does not contain
  CAVOK), where the inline request is answered with a JSON object, for a visibility
  distance that is present and not zero, the extraction raises what \<open>float\<close> of it, the read of the cloud list or \<open>int\<close> of
  the chosen base raise, and when it returns: the visibility is \<open>float\<close> of the reported
  value, which is exactly the reported value when that is a float or an integer of
  magnitude up to 2^53; the ceiling is \<open>int\<close> of the base of the layer the loop stops at,
  the base truncated toward zero, which is exactly the reported value when that is a
  whole number, and is absent when the loop stops at no layer. Nothing is clamped.
\<close>

theorem fields_pass_through:
  assumes "has_cavok metar_raw = Inr False" and "json r = Some data"
    and "visibility data = Val vobj" and "meters_float vobj = Val x" and "truthy (Some x)"
  shows "extract_fields metar_raw (Inr r) =
           bind (py_float x) (\<lambda>f.
           bind (read_clouds data) (\<lambda>cs.
           bind (scan_clouds cs) (\<lambda>ceil. Inr (Some f, ceil))))
    \<and> (\<forall>vis ceil. extract_fields metar_raw (Inr r) = Inr (vis, ceil) \<longrightarrow>
          (\<exists>f. py_float x = Inr f \<and> vis = Some f)
          \<and> (\<exists>cs. read_clouds data = Inr cs
                \<and> (case chosen_layer cs of
                      None \<Rightarrow> ceil = None
                    | Some l \<Rightarrow>
                        (\<exists>b i. get (base_feet_agl l) = Some b \<and> py_int b = Inr i
                               \<and> ceil = Some (num_of_int i)))))
    \<and> (\<forall>y. x = JFloat y \<longrightarrow> py_float x = Inr y)
    \<and> (\<forall>i. x = JInt i \<and> \<bar>i\<bar> \<le> 2 ^ 53 \<longrightarrow> py_float x = Inr (Fin (of_int i)))
    \<and> (\<forall>n. py_int (JInt n) = Inr n \<and> py_int (JFloat (Fin (of_int n))) = Inr n)
    \<and> (\<forall>v. py_int (JFloat (Fin v)) = Inr (if 0 \<le> v then \<lfloor>v\<rfloor> else \<lceil>v\<rceil>))"
proof -
  have v: "read_vis_raw data = Inr (Some x)"
    using assms(3,4) by (simp add: read_vis_raw_def get_def)
  have a: "extract_fields metar_raw (Inr r) =
           bind (py_float x) (\<lambda>f.
           bind (read_clouds data) (\<lambda>cs.
           bind (scan_clouds cs) (\<lambda>ceil. Inr (Some f, ceil))))"
    using assms(1,5) v
    by (simp add: extract_eq [OF assms(2)] read_fields_def convert_vis_def bind_def
        split: sum.splits)
  have b: "\<forall>vis ceil. extract_fields metar_raw (Inr r) = Inr (vis, ceil) \<longrightarrow>
          (\<exists>f. py_float x = Inr f \<and> vis = Some f)
          \<and> (\<exists>cs. read_clouds data = Inr cs
                \<and> (case chosen_layer cs of
                      None \<Rightarrow> ceil = None
                    | Some l \<Rightarrow>
                        (\<exists>b i. get (base_feet_agl l) = Some b \<and> py_int b = Inr i
                               \<and> ceil = Some (num_of_int i))))"
  proof (intro allI impI)
    fix vis ceil
    assume h: "extract_fields metar_raw (Inr r) = Inr (vis, ceil)"
    from h a obtain f where f: "py_float x = Inr f"
      by (cases "py_float x") (simp_all add: bind_def)
    from h a f obtain cs where cs: "read_clouds data = Inr cs"
      by (cases "read_clouds data") (simp_all add: bind_def)
    from h a f cs obtain c where c: "scan_clouds cs = Inr c"
      by (cases "scan_clouds cs") (simp_all add: bind_def)
    from h a f cs c have vc: "vis = Some f" "ceil = c"
      by (simp_all add: bind_def)
    have "case chosen_layer cs of
            None \<Rightarrow> ceil = None
          | Some l \<Rightarrow>
              (\<exists>b i. get (base_feet_agl l) = Some b \<and> py_int b = Inr i
                     \<and> ceil = Some (num_of_int i))"
    proof (cases "chosen_layer cs")
      case None
      with c vc(2) show ?thesis by (simp add: scan_clouds_chosen)
    next
      case (Some l)
      then have t: "truthy (get (base_feet_agl l))"
        by (auto simp add: chosen_layer_def dest: find_Some_iff [THEN iffD1])
      then obtain b where b: "get (base_feet_agl l) = Some b"
        by (cases "get (base_feet_agl l)") simp_all
      from c Some b obtain i where "py_int b = Inr i" "c = Some (num_of_int i)"
        by (cases "py_int b") (auto simp add: scan_clouds_chosen bind_def)
      with Some b vc(2) show ?thesis by simp
    qed
    with f vc(1) cs
    show "(\<exists>f. py_float x = Inr f \<and> vis = Some f)
          \<and> (\<exists>cs. read_clouds data = Inr cs
                \<and> (case chosen_layer cs of
                      None \<Rightarrow> ceil = None
                    | Some l \<Rightarrow>
                        (\<exists>b i. get (base_feet_agl l) = Some b \<and> py_int b = Inr i
                               \<and> ceil = Some (num_of_int i))))"
      by blast
  qed
  have c: "\<forall>y. x = JFloat y \<longrightarrow> py_float x = Inr y"
    by simp
  have d: "\<forall>i. x = JInt i \<and> \<bar>i\<bar> \<le> 2 ^ 53 \<longrightarrow> py_float x = Inr (Fin (of_int i))"
    using float_of_int_exact by (auto simp add: num_of_int_def)
  have e: "\<forall>n. py_int (JInt n) = Inr n \<and> py_int (JFloat (Fin (of_int n))) = Inr n"
    by simp
  have f: "\<forall>v. py_int (JFloat (Fin v)) = Inr (if 0 \<le> v then \<lfloor>v\<rfloor> else \<lceil>v\<rceil>)"
    by simp
  from a b c d e f show ?thesis by (intro conjI)
qed

theorem fields_pass_through_witness:
  "has_cavok (Some ''LFPG 121200Z 24005KT 8000 BKN012 18/09 Q1020'') = Inr False
   \<and> truthy (Some (JFloat (Fin 8000)))
   \<and> extract_fields (Some ''LFPG 121200Z 24005KT 8000 BKN012 18/09 Q1020'')
        (Inr (Response 200 (Some \<lparr>raw = Missing, sanitized = Missing,
           visibility = Val \<lparr>meters_float = Val (JFloat (Fin 8000))\<rparr>,
           clouds = Val [\<lparr>base_feet_agl = Val (JInt 1200)\<rparr>]\<rparr>)))
      = Inr (Some (Fin 8000), Some (Fin 1200))"
proof -
  have a: "has_cavok (Some ''LFPG 121200Z 24005KT 8000 BKN012 18/09 Q1020'') = Inr False"
    by (simp add: has_cavok_def upper_def upper_char_def)
  have b: "json (Response 200 (Some \<lparr>raw = Missing, sanitized = Missing,
           visibility = Val \<lparr>meters_float = Val (JFloat (Fin 8000))\<rparr>,
           clouds = Val [\<lparr>base_feet_agl = Val (JInt 1200)\<rparr>]\<rparr>))
       = Some \<lparr>raw = Missing, sanitized = Missing,
           visibility = Val \<lparr>meters_float = Val (JFloat (Fin 8000))\<rparr>,
           clouds = Val [\<lparr>base_feet_agl = Val (JInt 1200)\<rparr>]\<rparr>"
    by simp
  have c: "visibility \<lparr>raw = Missing, sanitized = Missing,
           visibility = Val \<lparr>meters_float = Val (JFloat (Fin 8000))\<rparr>,
           clouds = Val [\<lparr>base_feet_agl = Val (JInt 1200)\<rparr>]\<rparr>
         = Val \<lparr>meters_float = Val (JFloat (Fin 8000))\<rparr>"
    by simp
  have d: "meters_float \<lparr>meters_float = Val (JFloat (Fin 8000))\<rparr> = Val (JFloat (Fin 8000))"
    by simp
  have e: "truthy (Some (JFloat (Fin 8000)))"
    by simp
  from fields_pass_through [OF a b c d e, THEN conjunct1]
  have "extract_fields (Some ''LFPG 121200Z 24005KT 8000 BKN012 18/09 Q1020'')
        (Inr (Response 200 (Some \<lparr>raw = Missing, sanitized = Missing,
           visibility = Val \<lparr>meters_float = Val (JFloat (Fin 8000))\<rparr>,
           clouds = Val [\<lparr>base_feet_agl = Val (JInt 1200)\<rparr>]\<rparr>)))
      = Inr (Some (Fin 8000), Some (Fin 1200))"
    by (simp add: bind_def read_clouds_def get_def num_of_int_def)
  with a e show ?thesis by (intro conjI)
qed

section \<open>The page\<close>
























end
